theory Spec2Isabelle
  imports Main "HOL-Library.Word"
begin

section \<open>Live edit runtime entry points (src/runtime/runtime-liveedit.cc)\<close>

text \<open>
  The file under verification is the runtime binding layer of V8's live edit: eleven
  \<^verbatim>\<open>RUNTIME_FUNCTION\<close>s that validate their arguments with \<^verbatim>\<open>CHECK\<close> and then
  delegate to the live edit engine (\<^verbatim>\<open>LiveEdit::...\<close>, declared in
  \<^verbatim>\<open>src/debug/liveedit.h\<close>). The engine, the argument conversion macros and the
  object model are not part of the file; the engine's functions are therefore taken as
  parameters of the embedding (record \<open>collaborators\<close> below), and the entry points are
  translated statement by statement.
\<close>

subsection \<open>Objects and the heap\<close>

type_synonym addr = nat

text \<open>
  A tagged value as the entry points see it. \<open>HeapRef a\<close> is a pointer to the heap cell
  at address \<open>a\<close> (a \<^verbatim>\<open>Script\<close>, a \<^verbatim>\<open>SharedFunctionInfo\<close>, ...); \<open>JSValue v\<close> is a
  JavaScript wrapper object whose \<^verbatim>\<open>value()\<close> is \<open>v\<close>; \<open>JSArray fast xs\<close> is a
  JavaScript array with elements \<open>xs\<close>, \<open>fast\<close> telling whether it
  \<^verbatim>\<open>HasFastElements()\<close>.
\<close>

datatype Object =
    Undefined
  | Null
  | Smi int
  | Boolean bool
  | String string
  | JSValue Object
  | JSArray bool "Object list"
  | HeapRef addr

record SharedFunctionInfo =
  Name :: string
  StartPosition :: int
  EndPosition :: int
  script :: Object
  code :: addr

record Script =
  source :: string
  name :: Object

datatype HeapObject =
    SharedFunctionInfoObj SharedFunctionInfo
  | ScriptObj Script
  | CodeObj
  | OtherObj

text \<open>
  The features of \<^verbatim>\<open>DebugFeatureTracker\<close>; the file names \<^verbatim>\<open>kLiveEdit\<close> only.
\<close>

datatype Feature = kLiveEdit | kOtherFeature

text \<open>
  The isolate: the debugger's live edit switch, the heap in the order in which a
  \<^verbatim>\<open>HeapIterator\<close> visits it (a cell's address is its index), and what the
  debugger's feature tracker has recorded.
\<close>

record Isolate =
  live_edit_enabled :: bool
  heap :: "HeapObject list"
  feature_tracker :: "Feature list"

text \<open>
  What a runtime call does to its caller: \<open>Fatal\<close> is a failed \<^verbatim>\<open>CHECK\<close> (the process
  is aborted at that statement), \<open>Failure\<close> the exception sentinel returned with a
  pending exception, \<open>Returned v\<close> a normal return. Every entry point yields the outcome
  together with the isolate as it is at that moment.
\<close>

datatype outcome = Fatal | Failure | Returned Object

definition IsScript :: "Isolate \<Rightarrow> Object \<Rightarrow> bool" where
  "IsScript isolate v =
     (case v of
        HeapRef a \<Rightarrow>
          a < length (heap isolate) \<and>
          (case heap isolate ! a of ScriptObj s \<Rightarrow> True | _ \<Rightarrow> False)
      | _ \<Rightarrow> False)"

definition IsSharedFunctionInfo :: "Isolate \<Rightarrow> Object \<Rightarrow> bool" where
  "IsSharedFunctionInfo isolate v =
     (case v of
        HeapRef a \<Rightarrow>
          a < length (heap isolate) \<and>
          (case heap isolate ! a of SharedFunctionInfoObj s \<Rightarrow> True | _ \<Rightarrow> False)
      | _ \<Rightarrow> False)"

fun IsJSValue :: "Object \<Rightarrow> bool" where
  "IsJSValue (JSValue v) = True"
| "IsJSValue v = False"

fun "value" :: "Object \<Rightarrow> Object" where
  "value (JSValue v) = v"
| "value v = Undefined"

subsection \<open>Collaborators that are not in the file\<close>

text \<open>
  The functions the entry points call and the file does not define, with the types
  their call sites show. A function returning \<^verbatim>\<open>void\<close> is a state transformer; one
  returning a handle yields the value and the new isolate; \<^verbatim>\<open>GatherCompileInfo\<close>
  returns a \<^verbatim>\<open>MaybeHandle\<close>, empty (\<open>None\<close>) when an exception is pending.
  \<open>SetProperties nm start_position end_position info\<close> is the JavaScript array of a
  fresh \<^verbatim>\<open>SharedInfoWrapper\<close> after \<^verbatim>\<open>SetProperties\<close> with these arguments;
  \<open>IsInstance\<close> is \<^verbatim>\<open>SharedInfoWrapper::IsInstance\<close>; \<open>Track\<close> is
  \<^verbatim>\<open>DebugFeatureTracker::Track\<close>; \<open>kSmiMaxValue\<close> is the largest small integer
  of the platform.
\<close>

record collaborators =
  IsInstance :: "Isolate \<Rightarrow> Object \<Rightarrow> bool"
  SetProperties :: "string \<Rightarrow> int \<Rightarrow> int \<Rightarrow> Object \<Rightarrow> Object"
  Track :: "Feature \<Rightarrow> Isolate \<Rightarrow> Isolate"
  GatherCompileInfo :: "Isolate \<Rightarrow> Object \<Rightarrow> string \<Rightarrow> Object option \<times> Isolate"
  ChangeScriptSource :: "Isolate \<Rightarrow> Object \<Rightarrow> string \<Rightarrow> Object \<Rightarrow> Object \<times> Isolate"
  FixupScript :: "Isolate \<Rightarrow> Object \<Rightarrow> int \<Rightarrow> Isolate"
  FunctionSourceUpdated :: "Isolate \<Rightarrow> Object \<Rightarrow> int \<Rightarrow> Isolate"
  ReplaceFunctionCode :: "Isolate \<Rightarrow> Object \<Rightarrow> Object \<Rightarrow> Isolate"
  SetFunctionScript :: "Isolate \<Rightarrow> Object \<Rightarrow> Object \<Rightarrow> Isolate"
  ReplaceRefToNestedFunction :: "Isolate \<Rightarrow> Object \<Rightarrow> Object \<Rightarrow> Object \<Rightarrow> Isolate"
  PatchFunctionPositions :: "Isolate \<Rightarrow> Object \<Rightarrow> Object \<Rightarrow> Isolate"
  CheckAndDropActivations :: "Isolate \<Rightarrow> Object \<Rightarrow> Object \<Rightarrow> bool \<Rightarrow> Object \<times> Isolate"
  CompareStrings :: "Isolate \<Rightarrow> string \<Rightarrow> string \<Rightarrow> Object \<times> Isolate"
  kSmiMaxValue :: int

subsection \<open>Runtime_LiveEditFindSharedFunctionInfosForScript\<close>

text \<open>
  The \<^verbatim>\<open>while\<close> loop over the heap iterator: \<open>found\<close> is the vector the loop pushes
  to, the list argument what the iterator has still to visit.
\<close>

fun collect_found :: "Object \<Rightarrow> (addr \<times> HeapObject) list \<Rightarrow> addr list \<Rightarrow> addr list" where
  "collect_found scr [] found = found"
| "collect_found scr ((a, heap_obj) # rest) found =
     (case heap_obj of
        SharedFunctionInfoObj shared \<Rightarrow>
          if script shared \<noteq> scr then collect_found scr rest found
          else collect_found scr rest (found @ [a])
      | _ \<Rightarrow> collect_found scr rest found)"

text \<open>
  The body of the \<^verbatim>\<open>for\<close> loop: the wrapper of the record at address \<open>a\<close>, set up
  with the record's name, start position and end position, and the record.
\<close>

definition info_wrapper :: "collaborators \<Rightarrow> Isolate \<Rightarrow> addr \<Rightarrow> Object" where
  "info_wrapper le isolate a =
     (case heap isolate ! a of
        SharedFunctionInfoObj shared \<Rightarrow>
          SetProperties le (Name shared) (StartPosition shared) (EndPosition shared)
            (HeapRef a)
      | _ \<Rightarrow> Undefined)"

text \<open>
  The \<^verbatim>\<open>for\<close> loop that fills the result array: slot \<open>i\<close> receives the wrapper of
  \<open>found[i]\<close>, for \<open>i\<close> from 0 up to \<open>found_size\<close>.
\<close>

definition fill_result ::
  "collaborators \<Rightarrow> Isolate \<Rightarrow> addr list \<Rightarrow> nat \<Rightarrow> Object list" where
  "fill_result le isolate found found_size =
     fold (\<lambda>i result. result[i := info_wrapper le isolate (found ! i)])
       [0..<found_size] (replicate found_size Undefined)"

definition Runtime_LiveEditFindSharedFunctionInfosForScript ::
  "collaborators \<Rightarrow> Isolate \<Rightarrow> Object \<Rightarrow> outcome \<times> Isolate" where
  "Runtime_LiveEditFindSharedFunctionInfosForScript le isolate script_value =
     (if \<not> live_edit_enabled isolate then (Fatal, isolate)
      else if \<not> IsJSValue script_value then (Fatal, isolate)
      else if \<not> IsScript isolate (value script_value) then (Fatal, isolate)
      else
        let found = collect_found (value script_value)
                      (zip [0..<length (heap isolate)] (heap isolate)) [];
            found_size = sint (word_of_nat (length found) :: 32 word)
        in if found_size < 0 then (Fatal, isolate)
           else (Returned (JSArray True (fill_result le isolate found (nat found_size))),
                 isolate))"

subsection \<open>The entry points that only validate and delegate\<close>

fun IsString :: "Object \<Rightarrow> bool" where
  "IsString (String s) = True"
| "IsString v = False"

fun string_of :: "Object \<Rightarrow> string" where
  "string_of (String s) = s"
| "string_of v = []"

fun IsJSArray :: "Object \<Rightarrow> bool" where
  "IsJSArray (JSArray fast xs) = True"
| "IsJSArray v = False"

fun elements :: "Object \<Rightarrow> Object list" where
  "elements (JSArray fast xs) = xs"
| "elements v = []"

fun HasFastElements :: "Object \<Rightarrow> bool" where
  "HasFastElements (JSArray fast xs) = fast"
| "HasFastElements v = False"

fun IsBoolean :: "Object \<Rightarrow> bool" where
  "IsBoolean (Boolean b) = True"
| "IsBoolean v = False"

fun IsTrue :: "Object \<Rightarrow> bool" where
  "IsTrue (Boolean b) = b"
| "IsTrue v = False"

text \<open>\<^verbatim>\<open>CONVERT_INT32_ARG_CHECKED\<close>: the argument is a number that converts to an int32.\<close>

fun ToInt32 :: "Object \<Rightarrow> int option" where
  "ToInt32 (Smi n) = (if - (2 ^ 31) \<le> n \<and> n < 2 ^ 31 then Some n else None)"
| "ToInt32 v = None"

definition Runtime_LiveEditGatherCompileInfo ::
  "collaborators \<Rightarrow> Isolate \<Rightarrow> Object \<Rightarrow> Object \<Rightarrow> outcome \<times> Isolate" where
  "Runtime_LiveEditGatherCompileInfo le isolate scr src =
     (if \<not> live_edit_enabled isolate then (Fatal, isolate)
      else if \<not> IsJSValue scr then (Fatal, isolate)
      else if \<not> IsString src then (Fatal, isolate)
      else if \<not> IsScript isolate (value scr) then (Fatal, isolate)
      else
        (case GatherCompileInfo le isolate (value scr) (string_of src) of
           (None, isolate') \<Rightarrow> (Failure, isolate')
         | (Some result, isolate') \<Rightarrow> (Returned result, isolate')))"

definition Runtime_LiveEditReplaceScript ::
  "collaborators \<Rightarrow> Isolate \<Rightarrow> Object \<Rightarrow> Object \<Rightarrow> Object \<Rightarrow> outcome \<times> Isolate" where
  "Runtime_LiveEditReplaceScript le isolate original_script_value new_source old_script_name =
     (if \<not> live_edit_enabled isolate then (Fatal, isolate)
      else if \<not> IsJSValue original_script_value then (Fatal, isolate)
      else if \<not> IsString new_source then (Fatal, isolate)
      else if \<not> IsScript isolate (value original_script_value) then (Fatal, isolate)
      else
        (case ChangeScriptSource le isolate (value original_script_value)
                (string_of new_source) old_script_name of
           (old_script, isolate') \<Rightarrow>
             if IsScript isolate' old_script then (Returned (JSValue old_script), isolate')
             else (Returned Null, isolate')))"

definition Runtime_LiveEditFixupScript ::
  "collaborators \<Rightarrow> Isolate \<Rightarrow> Object \<Rightarrow> Object \<Rightarrow> outcome \<times> Isolate" where
  "Runtime_LiveEditFixupScript le isolate script_value max_function_literal_id =
     (if \<not> live_edit_enabled isolate then (Fatal, isolate)
      else if \<not> IsJSValue script_value then (Fatal, isolate)
      else
        (case ToInt32 max_function_literal_id of
           None \<Rightarrow> (Fatal, isolate)
         | Some n \<Rightarrow>
             if \<not> IsScript isolate (value script_value) then (Fatal, isolate)
             else (Returned Undefined, FixupScript le isolate (value script_value) n)))"

definition Runtime_LiveEditFunctionSourceUpdated ::
  "collaborators \<Rightarrow> Isolate \<Rightarrow> Object \<Rightarrow> Object \<Rightarrow> outcome \<times> Isolate" where
  "Runtime_LiveEditFunctionSourceUpdated le isolate shared_info new_function_literal_id =
     (if \<not> live_edit_enabled isolate then (Fatal, isolate)
      else if \<not> IsJSArray shared_info then (Fatal, isolate)
      else
        (case ToInt32 new_function_literal_id of
           None \<Rightarrow> (Fatal, isolate)
         | Some n \<Rightarrow>
             if \<not> IsInstance le isolate shared_info then (Fatal, isolate)
             else (Returned Undefined, FunctionSourceUpdated le isolate shared_info n)))"

definition Runtime_LiveEditReplaceFunctionCode ::
  "collaborators \<Rightarrow> Isolate \<Rightarrow> Object \<Rightarrow> Object \<Rightarrow> outcome \<times> Isolate" where
  "Runtime_LiveEditReplaceFunctionCode le isolate new_compile_info shared_info =
     (if \<not> live_edit_enabled isolate then (Fatal, isolate)
      else if \<not> IsJSArray new_compile_info then (Fatal, isolate)
      else if \<not> IsJSArray shared_info then (Fatal, isolate)
      else if \<not> IsInstance le isolate shared_info then (Fatal, isolate)
      else (Returned Undefined, ReplaceFunctionCode le isolate new_compile_info shared_info))"

definition Runtime_LiveEditFunctionSetScript ::
  "collaborators \<Rightarrow> Isolate \<Rightarrow> Object \<Rightarrow> Object \<Rightarrow> outcome \<times> Isolate" where
  "Runtime_LiveEditFunctionSetScript le isolate function_object script_object =
     (if \<not> live_edit_enabled isolate then (Fatal, isolate)
      else if IsJSValue function_object then
        (if IsJSValue script_object \<and> \<not> IsScript isolate (value script_object)
         then (Fatal, isolate)
         else
           let script_object' =
                 (if IsJSValue script_object then value script_object else script_object)
           in if \<not> IsSharedFunctionInfo isolate (value function_object) then (Fatal, isolate)
              else (Returned Undefined,
                    SetFunctionScript le isolate function_object script_object'))
      else (Returned Undefined, isolate))"

definition Runtime_LiveEditReplaceRefToNestedFunction ::
  "collaborators \<Rightarrow> Isolate \<Rightarrow> Object \<Rightarrow> Object \<Rightarrow> Object \<Rightarrow> outcome \<times> Isolate" where
  "Runtime_LiveEditReplaceRefToNestedFunction le isolate parent_wrapper orig_wrapper
       subst_wrapper =
     (if \<not> live_edit_enabled isolate then (Fatal, isolate)
      else if \<not> IsJSValue parent_wrapper then (Fatal, isolate)
      else if \<not> IsJSValue orig_wrapper then (Fatal, isolate)
      else if \<not> IsJSValue subst_wrapper then (Fatal, isolate)
      else if \<not> IsSharedFunctionInfo isolate (value parent_wrapper) then (Fatal, isolate)
      else if \<not> IsSharedFunctionInfo isolate (value orig_wrapper) then (Fatal, isolate)
      else if \<not> IsSharedFunctionInfo isolate (value subst_wrapper) then (Fatal, isolate)
      else (Returned Undefined,
            ReplaceRefToNestedFunction le isolate parent_wrapper orig_wrapper subst_wrapper))"

definition Runtime_LiveEditPatchFunctionPositions ::
  "collaborators \<Rightarrow> Isolate \<Rightarrow> Object \<Rightarrow> Object \<Rightarrow> outcome \<times> Isolate" where
  "Runtime_LiveEditPatchFunctionPositions le isolate shared_array position_change_array =
     (if \<not> live_edit_enabled isolate then (Fatal, isolate)
      else if \<not> IsJSArray shared_array then (Fatal, isolate)
      else if \<not> IsJSArray position_change_array then (Fatal, isolate)
      else if \<not> IsInstance le isolate shared_array then (Fatal, isolate)
      else (Returned Undefined,
            PatchFunctionPositions le isolate shared_array position_change_array))"

text \<open>
  The validation loop of \<^verbatim>\<open>Runtime_LiveEditCheckAndDropActivations\<close>: element \<open>i\<close> of
  the old array is a wrapped \<^verbatim>\<open>SharedFunctionInfo\<close>, element \<open>i\<close> of the new array is
  undefined or a wrapped \<^verbatim>\<open>SharedFunctionInfo\<close>. Reading an element of a JavaScript
  array with fast elements raises no exception.
\<close>

fun check_elements :: "Isolate \<Rightarrow> Object list \<Rightarrow> Object list \<Rightarrow> bool" where
  "check_elements isolate (old_element # olds) (new_element # news) =
     (if \<not> (IsJSValue old_element \<and> IsSharedFunctionInfo isolate (value old_element))
      then False
      else if \<not> (new_element = Undefined \<or>
                  (IsJSValue new_element \<and> IsSharedFunctionInfo isolate (value new_element)))
      then False
      else check_elements isolate olds news)"
| "check_elements isolate olds news = True"

definition Runtime_LiveEditCheckAndDropActivations ::
  "collaborators \<Rightarrow> Isolate \<Rightarrow> Object \<Rightarrow> Object \<Rightarrow> Object \<Rightarrow> outcome \<times> Isolate" where
  "Runtime_LiveEditCheckAndDropActivations le isolate old_shared_array new_shared_array
       do_drop =
     (if \<not> live_edit_enabled isolate then (Fatal, isolate)
      else if \<not> IsJSArray old_shared_array then (Fatal, isolate)
      else if \<not> IsJSArray new_shared_array then (Fatal, isolate)
      else if \<not> IsBoolean do_drop then (Fatal, isolate)
      else if \<not> int (length (elements old_shared_array)) \<le> kSmiMaxValue le
        then (Fatal, isolate)
      else if length (elements new_shared_array) \<noteq> length (elements old_shared_array)
        then (Fatal, isolate)
      else if \<not> HasFastElements old_shared_array then (Fatal, isolate)
      else if \<not> HasFastElements new_shared_array then (Fatal, isolate)
      else if \<not> check_elements isolate (elements old_shared_array)
                  (elements new_shared_array)
        then (Fatal, isolate)
      else
        (case CheckAndDropActivations le isolate old_shared_array new_shared_array
                (IsTrue do_drop) of
           (result, isolate') \<Rightarrow> (Returned result, isolate')))"

subsection \<open>Runtime_LiveEditCompareStrings\<close>

text \<open>
  \<^verbatim>\<open>ToArrayLength\<close> of the length of a JavaScript array: the number of its elements
  when that is an unsigned 32-bit value.
\<close>

definition ToArrayLength :: "Object \<Rightarrow> nat option" where
  "ToArrayLength arr =
     (if length (elements arr) < 2 ^ 32 then Some (length (elements arr)) else None)"

definition Runtime_LiveEditCompareStrings ::
  "collaborators \<Rightarrow> Isolate \<Rightarrow> Object \<Rightarrow> Object \<Rightarrow> outcome \<times> Isolate" where
  "Runtime_LiveEditCompareStrings le isolate s1 s2 =
     (if \<not> live_edit_enabled isolate then (Fatal, isolate)
      else if \<not> IsString s1 then (Fatal, isolate)
      else if \<not> IsString s2 then (Fatal, isolate)
      else
        (case CompareStrings le isolate (string_of s1) (string_of s2) of
           (result, isolate') \<Rightarrow>
             (case ToArrayLength result of
                None \<Rightarrow> (Fatal, isolate')
              | Some array_length \<Rightarrow>
                  if array_length > 0 then (Returned result, Track le kLiveEdit isolate')
                  else (Returned result, isolate'))))"

subsection \<open>All entry points as one interface\<close>

datatype runtime_call =
    LiveEditFindSharedFunctionInfosForScript Object
  | LiveEditGatherCompileInfo Object Object
  | LiveEditReplaceScript Object Object Object
  | LiveEditFixupScript Object Object
  | LiveEditFunctionSourceUpdated Object Object
  | LiveEditReplaceFunctionCode Object Object
  | LiveEditFunctionSetScript Object Object
  | LiveEditReplaceRefToNestedFunction Object Object Object
  | LiveEditPatchFunctionPositions Object Object
  | LiveEditCheckAndDropActivations Object Object Object
  | LiveEditCompareStrings Object Object

fun Runtime_call :: "collaborators \<Rightarrow> Isolate \<Rightarrow> runtime_call \<Rightarrow> outcome \<times> Isolate" where
  "Runtime_call le isolate (LiveEditFindSharedFunctionInfosForScript a0) =
     Runtime_LiveEditFindSharedFunctionInfosForScript le isolate a0"
| "Runtime_call le isolate (LiveEditGatherCompileInfo a0 a1) =
     Runtime_LiveEditGatherCompileInfo le isolate a0 a1"
| "Runtime_call le isolate (LiveEditReplaceScript a0 a1 a2) =
     Runtime_LiveEditReplaceScript le isolate a0 a1 a2"
| "Runtime_call le isolate (LiveEditFixupScript a0 a1) =
     Runtime_LiveEditFixupScript le isolate a0 a1"
| "Runtime_call le isolate (LiveEditFunctionSourceUpdated a0 a1) =
     Runtime_LiveEditFunctionSourceUpdated le isolate a0 a1"
| "Runtime_call le isolate (LiveEditReplaceFunctionCode a0 a1) =
     Runtime_LiveEditReplaceFunctionCode le isolate a0 a1"
| "Runtime_call le isolate (LiveEditFunctionSetScript a0 a1) =
     Runtime_LiveEditFunctionSetScript le isolate a0 a1"
| "Runtime_call le isolate (LiveEditReplaceRefToNestedFunction a0 a1 a2) =
     Runtime_LiveEditReplaceRefToNestedFunction le isolate a0 a1 a2"
| "Runtime_call le isolate (LiveEditPatchFunctionPositions a0 a1) =
     Runtime_LiveEditPatchFunctionPositions le isolate a0 a1"
| "Runtime_call le isolate (LiveEditCheckAndDropActivations a0 a1 a2) =
     Runtime_LiveEditCheckAndDropActivations le isolate a0 a1 a2"
| "Runtime_call le isolate (LiveEditCompareStrings a0 a1) =
     Runtime_LiveEditCompareStrings le isolate a0 a1"

subsection \<open>Notions the properties are stated with\<close>

definition is_function_of :: "Object \<Rightarrow> HeapObject \<Rightarrow> bool" where
  "is_function_of scr heap_obj =
     (case heap_obj of SharedFunctionInfoObj shared \<Rightarrow> script shared = scr | _ \<Rightarrow> False)"

text \<open>The function records in the heap whose script reference is the given script.\<close>

definition script_functions :: "Isolate \<Rightarrow> Object \<Rightarrow> addr set" where
  "script_functions isolate scr =
     {a. a < length (heap isolate) \<and> is_function_of scr (heap isolate ! a)}"

subsection \<open>Concrete inputs\<close>

text \<open>
  A five-cell heap: the script \<^verbatim>\<open>a.js\<close> at address 0, its function \<^verbatim>\<open>f\<close> at 1, a
  function of no script at 2, a code object at 3 and the script's top-level function at 4.
\<close>

definition example_heap :: "HeapObject list" where
  "example_heap =
     [ScriptObj \<lparr>source = ''function f(){return 1;}'', name = String ''a.js''\<rparr>,
      SharedFunctionInfoObj
        \<lparr>Name = ''f'', StartPosition = 10, EndPosition = 23, script = HeapRef 0, code = 3\<rparr>,
      SharedFunctionInfoObj
        \<lparr>Name = ''g'', StartPosition = 0, EndPosition = 5, script = Undefined, code = 3\<rparr>,
      CodeObj,
      SharedFunctionInfoObj
        \<lparr>Name = [], StartPosition = 0, EndPosition = 23, script = HeapRef 0, code = 3\<rparr>]"

definition example_isolate :: Isolate where
  "example_isolate =
     \<lparr>live_edit_enabled = True, heap = example_heap, feature_tracker = []\<rparr>"

definition disabled_isolate :: Isolate where
  "disabled_isolate =
     \<lparr>live_edit_enabled = False, heap = example_heap, feature_tracker = []\<rparr>"

text \<open>
  A stand-in for the collaborators, used only to instantiate theorems at concrete
  inputs: a wrapper is an array of its four properties, the tracker keeps the list of
  the features tracked, the engine's functions leave the isolate as it is, and its
  string comparison reports one chunk spanning both texts when they differ.
\<close>

definition example_engine :: collaborators where
  "example_engine =
     \<lparr>IsInstance = (\<lambda>isolate v. length (elements v) = 4),
      SetProperties = (\<lambda>nm start_position end_position info.
         JSArray True [String nm, Smi start_position, Smi end_position, JSValue info]),
      Track = (\<lambda>f isolate. isolate\<lparr>feature_tracker := feature_tracker isolate @ [f]\<rparr>),
      GatherCompileInfo = (\<lambda>isolate scr src. (Some (JSArray True []), isolate)),
      ChangeScriptSource = (\<lambda>isolate scr src old_name. (Undefined, isolate)),
      FixupScript = (\<lambda>isolate scr n. isolate),
      FunctionSourceUpdated = (\<lambda>isolate info n. isolate),
      ReplaceFunctionCode = (\<lambda>isolate info shared. isolate),
      SetFunctionScript = (\<lambda>isolate f scr. isolate),
      ReplaceRefToNestedFunction = (\<lambda>isolate parent orig subst. isolate),
      PatchFunctionPositions = (\<lambda>isolate shared changes. isolate),
      CheckAndDropActivations = (\<lambda>isolate olds news do_drop. (JSArray True [], isolate)),
      CompareStrings = (\<lambda>isolate s1 s2.
         (if s1 = s2 then JSArray True []
          else JSArray True [Smi 0, Smi (int (length s1)), Smi (int (length s2))], isolate)),
      kSmiMaxValue = 2 ^ 31 - 1\<rparr>"

section \<open>The Position Patcher\<close>

text \<open>
  Modelled from the spec: the ChangeRegion of the spec's data model, the triple
  (old_begin, old_end, new_end): the interval of the old text that was replaced, and
  where the replacement ends in the new text. The entry point's comment calls the three
  numbers change_begin, change_end and change_end_new_position.
\<close>

record ChangeRegion =
  old_begin :: int
  old_end :: int
  new_end :: int

text \<open>Regions sorted by their start that do not overlap.\<close>

fun sorted_regions :: "ChangeRegion list \<Rightarrow> bool" where
  "sorted_regions [] = True"
| "sorted_regions [r] = (old_begin r \<le> old_end r)"
| "sorted_regions (r # r' # rs) =
     (old_begin r \<le> old_end r \<and> old_end r \<le> old_begin r' \<and> sorted_regions (r' # rs))"

text \<open>
  Modelled from the spec: \<^verbatim>\<open>LiveEdit::PatchFunctionPositions\<close> (src/debug/liveedit.cc,
  not in the file), after the Position Patcher of the spec: "offsets before the first
  region start are unchanged; offsets at or after a region's old_end are shifted by the
  cumulative (new_len - old_len) of all regions entirely before them; offsets falling
  strictly inside a region are clamped to that region's new_end". \<open>Patch_scan\<close> walks
  the sorted list once, \<open>shift\<close> being the cumulative change of the regions passed so
  far; a region's new text begins at its old start moved by that shift.
\<close>

definition length_change :: "int \<Rightarrow> ChangeRegion \<Rightarrow> int" where
  "length_change shift r =
     (new_end r - (old_begin r + shift)) - (old_end r - old_begin r)"

fun Patch_scan :: "int \<Rightarrow> ChangeRegion list \<Rightarrow> int \<Rightarrow> int" where
  "Patch_scan shift [] O' = O' + shift"
| "Patch_scan shift (r # rs) O' =
     (if old_end r \<le> O' then Patch_scan (shift + length_change shift r) rs O'
      else if old_begin r < O' then new_end r
      else O' + shift)"

definition Patch :: "ChangeRegion list \<Rightarrow> int \<Rightarrow> int" where
  "Patch rs O' = Patch_scan 0 rs O'"

text \<open>
  Modelled from the spec: "this single rule is applied independently to each
  FunctionRecord's start and end".
\<close>

definition PatchFunctionPositions_spec ::
  "ChangeRegion list \<Rightarrow> SharedFunctionInfo \<Rightarrow> SharedFunctionInfo" where
  "PatchFunctionPositions_spec rs shared =
     shared\<lparr>StartPosition := Patch rs (StartPosition shared),
            EndPosition := Patch rs (EndPosition shared)\<rparr>"

text \<open>
  The words of the policy, stated on their own: an offset strictly inside a region, a
  region entirely before an offset, a region's old length, its new length (the new
  text of a region begins where the unchanged text that follows the previous region's
  new_end ends), and the cumulative (new_len - old_len) of the regions entirely before
  an offset.
\<close>

definition strictly_inside :: "int \<Rightarrow> ChangeRegion \<Rightarrow> bool" where
  "strictly_inside O' r \<longleftrightarrow> old_begin r < O' \<and> O' < old_end r"

definition entirely_before :: "ChangeRegion \<Rightarrow> int \<Rightarrow> bool" where
  "entirely_before r O' \<longleftrightarrow> old_end r \<le> O'"

definition old_len :: "ChangeRegion \<Rightarrow> int" where
  "old_len r = old_end r - old_begin r"

fun new_lens :: "int \<Rightarrow> int \<Rightarrow> ChangeRegion list \<Rightarrow> int list" where
  "new_lens prev_old_end prev_new_end [] = []"
| "new_lens prev_old_end prev_new_end (r # rs) =
     (new_end r - (prev_new_end + (old_begin r - prev_old_end))) #
     new_lens (old_end r) (new_end r) rs"

definition cumulative_change :: "ChangeRegion list \<Rightarrow> int \<Rightarrow> int" where
  "cumulative_change rs O' =
     sum_list (map (\<lambda>p. snd p - old_len (fst p))
                 (filter (\<lambda>p. entirely_before (fst p) O') (zip rs (new_lens 0 0 rs))))"

text \<open>The range \<open>[s, e)\<close> and the region's old interval do not overlap.\<close>

definition disjoint_from :: "int \<Rightarrow> int \<Rightarrow> ChangeRegion \<Rightarrow> bool" where
  "disjoint_from s e r \<longleftrightarrow> old_end r \<le> s \<or> e \<le> old_begin r"

text \<open>
  Two regions: five characters at 3 replaced by one, two characters at 12 replaced by
  twelve.
\<close>

definition shrinking_regions :: "ChangeRegion list" where
  "shrinking_regions =
     [\<lparr>old_begin = 3, old_end = 8, new_end = 4\<rparr>,
      \<lparr>old_begin = 12, old_end = 14, new_end = 20\<rparr>]"

definition insertion_at_10 :: ChangeRegion where
  "insertion_at_10 = \<lparr>old_begin = 10, old_end = 10, new_end = 13\<rparr>"

definition regions_around :: "ChangeRegion list" where
  "regions_around =
     [\<lparr>old_begin = 0, old_end = 2, new_end = 5\<rparr>,
      \<lparr>old_begin = 10, old_end = 12, new_end = 20\<rparr>]"

definition example_function :: SharedFunctionInfo where
  "example_function =
     \<lparr>Name = ''f'', StartPosition = 2, EndPosition = 10, script = HeapRef 0, code = 3\<rparr>"

section \<open>Properties of the entry points\<close>

subsection \<open>The heap scan\<close>

lemma sint32_of_nat: "m < 2 ^ 31 \<Longrightarrow> sint (word_of_nat m :: 32 word) = int m"
  by (simp add: signed_of_nat signed_take_bit_int_eq_self)

lemma collect_found_filter:
  "collect_found scr ps found = found @ map fst (filter (\<lambda>p. is_function_of scr (snd p)) ps)"
  by (induction ps arbitrary: found)
     (auto simp: is_function_of_def split: HeapObject.splits)

lemma zip_upt_nth: "zip [0..<length xs] xs = map (\<lambda>a. (a, xs ! a)) [0..<length xs]"
  by (rule nth_equalityI) simp_all

lemma collect_found_heap:
  "collect_found scr (zip [0..<length h] h) [] =
     filter (\<lambda>a. is_function_of scr (h ! a)) [0..<length h]"
  by (simp add: collect_found_filter zip_upt_nth filter_map comp_def)

lemma fold_update_upt:
  "k \<le> length r \<Longrightarrow>
   fold (\<lambda>i result. result[i := g i]) [0..<k] r = map g [0..<k] @ drop k r"
proof (induction k)
  case 0
  then show ?case by simp
next
  case (Suc k)
  then have "k < length r" by simp
  then have "(map g [0..<k] @ drop k r)[k := g k] = map g [0..<k] @ (drop k r)[0 := g k]"
    by (simp add: list_update_append)
  also have "(drop k r)[0 := g k] = g k # drop (Suc k) r"
    using \<open>k < length r\<close> by (metis Cons_nth_drop_Suc list_update_code(2))
  finally show ?case using Suc by simp
qed

lemma fill_result_map:
  "n \<le> length found \<Longrightarrow>
   fill_result le isolate found n = map (info_wrapper le isolate) (take n found)"
  unfolding fill_result_def
  by (subst fold_update_upt) (auto intro!: nth_equalityI)

lemma info_wrapper_of_function:
  "heap isolate ! a = SharedFunctionInfoObj shared \<Longrightarrow>
   info_wrapper le isolate a =
     SetProperties le (Name shared) (StartPosition shared) (EndPosition shared) (HeapRef a)"
  by (simp add: info_wrapper_def)

text \<open>
  Claim C9. With live edit enabled and a wrapped script as argument,
  \<^verbatim>\<open>Runtime_LiveEditFindSharedFunctionInfosForScript\<close> returns the array of the
  wrappers of exactly the function records in the heap whose script reference is that
  script, each of them once and in heap order and nothing else; the array's length is
  their number, and each entry is the wrapper set up with that record's name, start
  position and end position (and the record). The isolate is left as it was. The heap
  holds fewer than \<open>2^31\<close> cells, the range of the \<^verbatim>\<open>int\<close> the vector's size is cast
  to.
\<close>

theorem FindSharedFunctionInfosForScript_exact:
  assumes "live_edit_enabled isolate"
      and "IsScript isolate scr"
      and "length (heap isolate) < 2 ^ 31"
  shows "Runtime_LiveEditFindSharedFunctionInfosForScript le isolate (JSValue scr) =
           (Returned (JSArray True (map (info_wrapper le isolate)
                        (sorted_list_of_set (script_functions isolate scr)))), isolate) \<and>
         length (map (info_wrapper le isolate)
                   (sorted_list_of_set (script_functions isolate scr))) =
           card (script_functions isolate scr) \<and>
         (\<forall>a \<in> script_functions isolate scr. \<exists>shared.
            heap isolate ! a = SharedFunctionInfoObj shared \<and> script shared = scr \<and>
            info_wrapper le isolate a =
              SetProperties le (Name shared) (StartPosition shared) (EndPosition shared)
                (HeapRef a))"
proof -
  define found where
    "found = filter (\<lambda>a. is_function_of scr (heap isolate ! a)) [0..<length (heap isolate)]"
  have len: "length found < 2 ^ 31"
    using assms(3) le_less_trans [OF length_filter_le, of "[0..<length (heap isolate)]"]
    by (simp add: found_def)
  have call: "Runtime_LiveEditFindSharedFunctionInfosForScript le isolate (JSValue scr) =
               (Returned (JSArray True (map (info_wrapper le isolate) found)), isolate)"
    using assms(1,2) len
    by (simp add: Runtime_LiveEditFindSharedFunctionInfosForScript_def collect_found_heap
        found_def [symmetric] sint32_of_nat fill_result_map Let_def)
  have set_eq: "set found = script_functions isolate scr"
    by (auto simp: found_def script_functions_def)
  have "sorted found" "distinct found"
    by (simp_all add: found_def sorted_wrt_filter)
  then have "sorted_list_of_set (set found) = found"
    by (simp add: sorted_list_of_set.idem_if_sorted_distinct)
  then have found_eq: "sorted_list_of_set (script_functions isolate scr) = found"
    by (simp add: set_eq)
  have card_eq: "length found = card (script_functions isolate scr)"
    using \<open>distinct found\<close> set_eq distinct_card by fastforce
  have wrap: "\<forall>a \<in> script_functions isolate scr. \<exists>shared.
            heap isolate ! a = SharedFunctionInfoObj shared \<and> script shared = scr \<and>
            info_wrapper le isolate a =
              SetProperties le (Name shared) (StartPosition shared) (EndPosition shared)
                (HeapRef a)"
    by (auto simp: script_functions_def is_function_of_def info_wrapper_of_function
        split: HeapObject.splits)
  from call found_eq card_eq wrap show ?thesis by simp
qed

theorem FindSharedFunctionInfosForScript_exact_witness:
  "live_edit_enabled example_isolate \<and> IsScript example_isolate (HeapRef 0) \<and>
   length (heap example_isolate) < 2 ^ 31 \<and>
   script_functions example_isolate (HeapRef 0) = {1, 4} \<and>
   Runtime_LiveEditFindSharedFunctionInfosForScript example_engine example_isolate
       (JSValue (HeapRef 0)) =
     (Returned (JSArray True
        [JSArray True [String ''f'', Smi 10, Smi 23, JSValue (HeapRef 1)],
         JSArray True [String [], Smi 0, Smi 23, JSValue (HeapRef 4)]]), example_isolate)"
proof -
  have e: "live_edit_enabled example_isolate"
    by (simp add: example_isolate_def)
  have s: "IsScript example_isolate (HeapRef 0)"
    by (simp add: IsScript_def example_isolate_def example_heap_def)
  have l: "length (heap example_isolate) < 2 ^ 31"
    by (simp add: example_isolate_def example_heap_def)
  have "script_functions example_isolate (HeapRef 0) =
          set (filter (\<lambda>a. is_function_of (HeapRef 0) (heap example_isolate ! a))
                 [0..<length (heap example_isolate)])"
    by (auto simp: script_functions_def)
  also have "[0..<length (heap example_isolate)] = [0, 1, 2, 3, 4]"
    by (simp add: example_isolate_def example_heap_def upt_rec)
  finally have fs: "script_functions example_isolate (HeapRef 0) = {1, 4}"
    by (simp add: example_isolate_def example_heap_def is_function_of_def)
  have sl: "sorted_list_of_set {1, 4 :: nat} = [1, 4]"
    by (simp add: sorted_list_of_set.idem_if_sorted_distinct [of "[1, 4]", simplified])
  have w: "map (info_wrapper example_engine example_isolate) [1, 4] =
             [JSArray True [String ''f'', Smi 10, Smi 23, JSValue (HeapRef 1)],
              JSArray True [String [], Smi 0, Smi 23, JSValue (HeapRef 4)]]"
    by (simp add: info_wrapper_def example_isolate_def example_heap_def example_engine_def)
  from FindSharedFunctionInfosForScript_exact [OF e s l, of example_engine] fs sl w e s l
  show ?thesis by simp
qed

subsection \<open>The live edit switch\<close>

text \<open>
  Claim C10. Every entry point checks first that live edit is enabled: when it is not,
  the call, whatever the operation, its arguments and the engine behind it, halts at
  that \<^verbatim>\<open>CHECK\<close> and the isolate (scripts, function records, code) is as it was.
\<close>

theorem live_edit_disabled_halts:
  "\<not> live_edit_enabled isolate \<Longrightarrow> Runtime_call le isolate c = (Fatal, isolate)"
  by (cases c)
     (simp_all add: Runtime_LiveEditFindSharedFunctionInfosForScript_def
        Runtime_LiveEditGatherCompileInfo_def Runtime_LiveEditReplaceScript_def
        Runtime_LiveEditFixupScript_def Runtime_LiveEditFunctionSourceUpdated_def
        Runtime_LiveEditReplaceFunctionCode_def Runtime_LiveEditFunctionSetScript_def
        Runtime_LiveEditReplaceRefToNestedFunction_def
        Runtime_LiveEditPatchFunctionPositions_def
        Runtime_LiveEditCheckAndDropActivations_def Runtime_LiveEditCompareStrings_def)

theorem live_edit_disabled_halts_witness:
  "\<not> live_edit_enabled disabled_isolate \<and>
   Runtime_call example_engine disabled_isolate
     (LiveEditReplaceScript (JSValue (HeapRef 0)) (String ''function f(){return 2;}'')
        (String ''a.js (old)'')) = (Fatal, disabled_isolate)"
proof -
  have d: "\<not> live_edit_enabled disabled_isolate"
    by (simp add: disabled_isolate_def)
  from live_edit_disabled_halts [OF d] d show ?thesis by blast
qed

subsection \<open>The usage signal of the string comparison\<close>

text \<open>
  Claim C6. For every pair of texts, \<^verbatim>\<open>Runtime_LiveEditCompareStrings\<close> returns the
  array of the engine's comparison, and it sends the live edit usage signal to the
  feature tracker exactly when that array is not empty: the isolate after the call is
  the engine's with \<open>kLiveEdit\<close> tracked when the array has an element, and the
  engine's as it is otherwise. The array's length is an unsigned 32-bit value, as
  \<^verbatim>\<open>ToArrayLength\<close> checks.
\<close>

theorem CompareStrings_usage_signal:
  assumes "live_edit_enabled isolate"
      and "CompareStrings le isolate s1 s2 = (result, isolate')"
      and "length (elements result) < 2 ^ 32"
  shows "Runtime_LiveEditCompareStrings le isolate (String s1) (String s2) =
           (Returned result,
            if elements result \<noteq> [] then Track le kLiveEdit isolate' else isolate')"
  using assms
  by (simp add: Runtime_LiveEditCompareStrings_def ToArrayLength_def)

theorem CompareStrings_usage_signal_witness:
  "live_edit_enabled example_isolate \<and>
   CompareStrings example_engine example_isolate ''var a = 1;'' ''var a = 22;'' =
     (JSArray True [Smi 0, Smi 10, Smi 11], example_isolate) \<and>
   length (elements (JSArray True [Smi 0, Smi 10, Smi 11])) < 2 ^ 32 \<and>
   Runtime_LiveEditCompareStrings example_engine example_isolate
       (String ''var a = 1;'') (String ''var a = 22;'') =
     (Returned (JSArray True [Smi 0, Smi 10, Smi 11]),
      example_isolate\<lparr>feature_tracker := [kLiveEdit]\<rparr>)"
proof -
  have e: "live_edit_enabled example_isolate"
    by (simp add: example_isolate_def)
  have c: "CompareStrings example_engine example_isolate ''var a = 1;'' ''var a = 22;'' =
             (JSArray True [Smi 0, Smi 10, Smi 11], example_isolate)"
    by (simp add: example_engine_def)
  have l: "length (elements (JSArray True [Smi 0, Smi 10, Smi 11])) < 2 ^ 32"
    by simp
  have t: "Track example_engine kLiveEdit example_isolate =
             example_isolate\<lparr>feature_tracker := [kLiveEdit]\<rparr>"
    by (simp add: example_engine_def example_isolate_def)
  from CompareStrings_usage_signal [OF e c l] e c l t show ?thesis
    by simp
qed

section \<open>Properties of the Position Patcher\<close>

lemma sorted_regions_tail: "sorted_regions (r # rs) \<Longrightarrow> sorted_regions rs"
  by (cases rs) auto

lemma sorted_regions_head: "sorted_regions (r # rs) \<Longrightarrow> old_begin r \<le> old_end r"
  by (cases rs) auto

lemma sorted_regions_later:
  "sorted_regions (r # rs) \<Longrightarrow> r' \<in> set rs \<Longrightarrow>
   old_end r \<le> old_begin r' \<and> old_begin r' \<le> old_end r'"
proof (induction rs arbitrary: r)
  case Nil
  then show ?case by simp
next
  case (Cons a rs)
  show ?case
  proof (cases "r' = a")
    case True
    with Cons.prems show ?thesis using sorted_regions_head [of a rs] by simp
  next
    case False
    with Cons.prems have "r' \<in> set rs" by simp
    moreover from Cons.prems have "sorted_regions (a # rs)" by simp
    ultimately have "old_end a \<le> old_begin r' \<and> old_begin r' \<le> old_end r'"
      by (rule Cons.IH [rotated])
    moreover from Cons.prems have "old_end r \<le> old_begin a" by simp
    moreover from \<open>sorted_regions (a # rs)\<close> have "old_begin a \<le> old_end a"
      by (rule sorted_regions_head)
    ultimately show ?thesis by simp
  qed
qed

lemma Patch_scan_inside:
  "sorted_regions rs \<Longrightarrow> r \<in> set rs \<Longrightarrow> strictly_inside O' r \<Longrightarrow>
   Patch_scan shift rs O' = new_end r"
proof (induction rs arbitrary: shift)
  case Nil
  then show ?case by simp
next
  case (Cons a rs)
  show ?case
  proof (cases "r = a")
    case True
    with Cons.prems show ?thesis by (simp add: strictly_inside_def)
  next
    case False
    with Cons.prems have mem: "r \<in> set rs" by simp
    with Cons.prems have "old_end a \<le> old_begin r"
      using sorted_regions_later by blast
    with Cons.prems have "old_end a \<le> O'" by (simp add: strictly_inside_def)
    moreover have "Patch_scan s rs O' = new_end r" for s
      using Cons.IH [OF sorted_regions_tail [OF Cons.prems(1)] mem Cons.prems(3)] .
    ultimately show ?thesis by simp
  qed
qed

lemma no_region_before:
  "\<forall>r' \<in> set rs. O' < old_end r' \<Longrightarrow>
   filter (\<lambda>p. entirely_before (fst p) O') (zip rs ds) = []"
  by (auto simp: filter_empty_conv entirely_before_def dest!: set_zip_leftD)

lemma Patch_scan_between:
  "sorted_regions rs \<Longrightarrow> \<forall>r \<in> set rs. \<not> strictly_inside O' r \<Longrightarrow>
   Patch_scan (pn - po) rs O' =
     O' + (pn - po) +
     sum_list (map (\<lambda>p. snd p - old_len (fst p))
                 (filter (\<lambda>p. entirely_before (fst p) O') (zip rs (new_lens po pn rs))))"
proof (induction rs arbitrary: pn po)
  case Nil
  then show ?case by simp
next
  case (Cons a rs)
  note tl = sorted_regions_tail [OF Cons.prems(1)]
  have step: "pn - po + length_change (pn - po) a = new_end a - old_end a"
    by (simp add: length_change_def)
  show ?case
  proof (cases "old_end a \<le> O'")
    case True
    have "Patch_scan (new_end a - old_end a) rs O' =
            O' + (new_end a - old_end a) +
            sum_list (map (\<lambda>p. snd p - old_len (fst p))
                        (filter (\<lambda>p. entirely_before (fst p) O')
                           (zip rs (new_lens (old_end a) (new_end a) rs))))"
      using Cons.IH [OF tl, of "new_end a" "old_end a"] Cons.prems(2) by simp
    then show ?thesis using True
      by (simp add: entirely_before_def step old_len_def)
  next
    case False
    with Cons.prems(2) have nb: "\<not> old_begin a < O'"
      by (auto simp: strictly_inside_def)
    have "\<forall>r' \<in> set rs. O' < old_end r'"
      using sorted_regions_later [OF Cons.prems(1)] False by fastforce
    then have "filter (\<lambda>p. entirely_before (fst p) O')
                 (zip rs (new_lens (old_end a) (new_end a) rs)) = []"
      by (rule no_region_before)
    with False nb show ?thesis by (simp add: entirely_before_def)
  qed
qed

text \<open>
  Claim C3. The Position Patcher's policy, case by case, for a sorted, non-overlapping
  region list and every offset: the patched offset is the offset itself when it is
  before the first region's start; it is the region's new_end when the offset is
  strictly inside a region; and otherwise, when the offset is at or after a region's
  old_end, it is the offset shifted by the cumulative (new_len - old_len) of the regions
  entirely before it.
\<close>

theorem Patch_policy:
  assumes "sorted_regions rs"
  shows "(rs \<noteq> [] \<and> O' < old_begin (hd rs) \<longrightarrow> Patch rs O' = O') \<and>
         (\<forall>r \<in> set rs. strictly_inside O' r \<longrightarrow> Patch rs O' = new_end r) \<and>
         ((\<exists>r \<in> set rs. old_end r \<le> O') \<and> (\<forall>r \<in> set rs. \<not> strictly_inside O' r) \<longrightarrow>
            Patch rs O' = O' + cumulative_change rs O')"
proof (intro conjI impI ballI)
  assume "rs \<noteq> [] \<and> O' < old_begin (hd rs)"
  then obtain r rs' where rs: "rs = r # rs'" and before: "O' < old_begin r"
    by (cases rs) auto
  from assms rs have "old_begin r \<le> old_end r"
    using sorted_regions_head by blast
  with before show "Patch rs O' = O'"
    by (simp add: Patch_def rs)
next
  fix r assume "r \<in> set rs" and "strictly_inside O' r"
  with assms show "Patch rs O' = new_end r"
    by (simp add: Patch_def Patch_scan_inside)
next
  assume "(\<exists>r \<in> set rs. old_end r \<le> O') \<and> (\<forall>r \<in> set rs. \<not> strictly_inside O' r)"
  then have "\<forall>r \<in> set rs. \<not> strictly_inside O' r" by simp
  with assms show "Patch rs O' = O' + cumulative_change rs O'"
    using Patch_scan_between [of rs O' 0 0]
    by (simp add: Patch_def cumulative_change_def)
qed

lemma shrinking_regions_sorted: "sorted_regions shrinking_regions"
  by (simp add: shrinking_regions_def)

theorem Patch_policy_witness:
  "sorted_regions shrinking_regions \<and>
   Patch shrinking_regions 2 = 2 \<and>
   Patch shrinking_regions 5 = 4 \<and>
   Patch shrinking_regions 8 = 4 \<and>
   Patch shrinking_regions 10 = 6 \<and>
   Patch shrinking_regions 13 = 20 \<and>
   Patch shrinking_regions 20 = 26"
proof -
  note s = shrinking_regions_sorted
  have "Patch shrinking_regions 2 = 2"
    using Patch_policy [OF s, of 2] by (simp add: shrinking_regions_def)
  moreover have "Patch shrinking_regions 5 = 4"
    using Patch_policy [OF s, of 5]
    by (simp add: shrinking_regions_def strictly_inside_def)
  moreover have "Patch shrinking_regions 8 = 4"
    using Patch_policy [OF s, of 8]
    by (simp add: shrinking_regions_def strictly_inside_def cumulative_change_def
        entirely_before_def old_len_def)
  moreover have "Patch shrinking_regions 10 = 6"
    using Patch_policy [OF s, of 10]
    by (simp add: shrinking_regions_def strictly_inside_def cumulative_change_def
        entirely_before_def old_len_def)
  moreover have "Patch shrinking_regions 13 = 20"
    using Patch_policy [OF s, of 13]
    by (simp add: shrinking_regions_def strictly_inside_def)
  moreover have "Patch shrinking_regions 20 = 26"
    using Patch_policy [OF s, of 20]
    by (simp add: shrinking_regions_def strictly_inside_def cumulative_change_def
        entirely_before_def old_len_def)
  ultimately show ?thesis using s by simp
qed

lemma Patch_scan_length:
  "s \<le> e \<Longrightarrow> \<forall>r \<in> set rs. old_end r \<le> s \<or> (e \<le> old_begin r \<and> e < old_end r) \<Longrightarrow>
   Patch_scan shift rs e - Patch_scan shift rs s = e - s"
  by (induction rs arbitrary: shift) auto

text \<open>
  Claim C7, as amended. When every region ends at or before the start of a function
  record's range, or begins at or after the range's end and ends after it (so that no
  text is inserted exactly at the range's end), patching the record's start and end
  preserves its length.
\<close>

theorem Patch_length_preserved:
  assumes "StartPosition shared \<le> EndPosition shared"
      and "\<forall>r \<in> set rs. old_end r \<le> StartPosition shared \<or>
             (EndPosition shared \<le> old_begin r \<and> EndPosition shared < old_end r)"
  shows "EndPosition (PatchFunctionPositions_spec rs shared) -
         StartPosition (PatchFunctionPositions_spec rs shared) =
           EndPosition shared - StartPosition shared"
  using Patch_scan_length [OF assms]
  by (simp add: PatchFunctionPositions_spec_def Patch_def)

theorem Patch_length_preserved_witness:
  "StartPosition example_function \<le> EndPosition example_function \<and>
   list_all (disjoint_from 2 10) regions_around \<and>
   EndPosition (PatchFunctionPositions_spec
                  regions_around example_function) -
   StartPosition (PatchFunctionPositions_spec
                  regions_around example_function) = 8"
proof -
  have h1: "StartPosition example_function \<le> EndPosition example_function"
    by (simp add: example_function_def)
  have h2: "\<forall>r \<in> set regions_around.
              old_end r \<le> StartPosition example_function \<or>
              (EndPosition example_function \<le> old_begin r \<and>
               EndPosition example_function < old_end r)"
    by (simp add: example_function_def regions_around_def)
  from Patch_length_preserved [OF h1 h2] h1 show ?thesis
    by (simp add: example_function_def regions_around_def disjoint_from_def)
qed

text \<open>
  A region that inserts three characters at offset 10 is disjoint from the range
  \<open>[2, 10)\<close>, yet offset 10 is at its old_end and moves to 13: the length goes from 8
  to 11.
\<close>

theorem Patch_length_preserved_counterexample:
  "StartPosition example_function \<le> EndPosition example_function \<and>
   sorted_regions [insertion_at_10] \<and>
   disjoint_from (StartPosition example_function) (EndPosition example_function)
     insertion_at_10 \<and>
   {StartPosition example_function ..< EndPosition example_function} \<inter>
     {old_begin insertion_at_10 ..< old_end insertion_at_10} = {} \<and>
   EndPosition (PatchFunctionPositions_spec [insertion_at_10] example_function) -
   StartPosition (PatchFunctionPositions_spec [insertion_at_10] example_function) = 11 \<and>
   EndPosition example_function - StartPosition example_function = 8"
  by (simp add: example_function_def insertion_at_10_def disjoint_from_def
      PatchFunctionPositions_spec_def Patch_def length_change_def)

end
